theory Spec2Isabelle
  imports Main "HOL-Library.Monad_Syntax"
begin

section \<open>The OneRoster data model (datastore.go)\<close>

text \<open>
  A \<open>time.Time\<close> is an instant, counted from the zero value of the type; the zero
  value itself is \<open>0\<close>. A value of type \<open>any\<close> is the nil interface or some dynamic
  value; the generator never stores one. Slices are lists (a nil slice is the empty list),
  pointers to a struct are options.
\<close>

type_synonym Time = int

definition Time_zero :: Time where
  "Time_zero = 0"

datatype any = Nil | Dyn string

record BaseModel =
  SourcedId :: string
  Status :: string
  DateLastModified :: Time
  Metadata :: any

record GUIDRef =
  Href :: string
  SourcedId :: string
  Type :: string

record Org = BaseModel +
  Name :: string
  Type :: string
  Identifier :: string
  Parent :: "GUIDRef option"
  Children :: "GUIDRef list"

record User = BaseModel +
  Username :: string
  UserIds :: "any list"
  EnabledUser :: bool
  GivenName :: string
  FamilyName :: string
  Role :: string
  Identifier :: string
  Email :: string
  Orgs :: "GUIDRef list"

record Course = BaseModel +
  Title :: string
  SchoolYear :: "GUIDRef option"
  CourseCode :: string
  Grades :: "string list"
  Subjects :: "string list"
  SubjectCodes :: "string list"
  Resources :: "GUIDRef list"

record Class = BaseModel +
  Title :: string
  ClassCode :: string
  ClassType :: string
  Location :: string
  Grades :: "string list"
  Subjects :: "string list"
  Course :: GUIDRef
  School :: GUIDRef
  Terms :: "GUIDRef list"
  SubjectCodes :: "string list"
  Periods :: "string list"
  Resources :: "GUIDRef list"

record Enrollment = BaseModel +
  User :: GUIDRef
  Class :: GUIDRef
  School :: GUIDRef
  Role :: string
  Primary :: bool
  BeginDate :: string
  EndDate :: string

record AcademicSession = BaseModel +
  Title :: string
  StartDate :: string
  EndDate :: string
  Type :: string
  Parent :: "GUIDRef option"
  Children :: "GUIDRef list"
  SchoolYear :: string

record Category = BaseModel +
  Title :: string
  Weight :: int

record DataStore =
  Orgs :: "Org list"
  Users :: "User list"
  Courses :: "Course list"
  Classes :: "Class list"
  Enrollments :: "Enrollment list"
  AcademicSessions :: "AcademicSession list"
  Categories :: "Category list"

section \<open>Formatting (fmt.Sprintf with the verbs the generator uses)\<close>

definition digit_char :: "nat \<Rightarrow> char" where
  "digit_char d = char_of (48 + d)"

text \<open>The verb \<open>%d\<close> on a non-negative integer.\<close>

fun fmt_d :: "nat \<Rightarrow> string" where
  "fmt_d n = (if n < 10 then [digit_char n] else fmt_d (n div 10) @ [digit_char (n mod 10)])"

text \<open>The verb \<open>%0wd\<close> on a non-negative integer: zeros on the left up to width \<open>w\<close>.\<close>

definition fmt_0d :: "nat \<Rightarrow> nat \<Rightarrow> string" where
  "fmt_0d w n = replicate (w - length (fmt_d n)) (CHR ''0'') @ fmt_d n"

section \<open>The generator (NewDataStore)\<close>

text \<open>
  \<open>uuid.New().String()\<close> and \<open>time.Now()\<close> read the outside world. The generator
  takes the two sources as parameters: \<open>uuid n\<close> is the string of the \<open>n\<close>-th
  identifier drawn and \<open>now n\<close> the \<open>n\<close>-th reading of the clock, both counted from 0.
  The state of the generator is the store under construction and the number of draws and
  readings made so far.
\<close>

record gen_state = DataStore +
  uuid_calls :: nat
  now_calls :: nat

definition uuid_New_String :: "(nat \<Rightarrow> string) \<Rightarrow> gen_state \<Rightarrow> string \<times> gen_state" where
  "uuid_New_String uuid s = (uuid (uuid_calls s), s\<lparr>uuid_calls := Suc (uuid_calls s)\<rparr>)"

definition time_Now :: "(nat \<Rightarrow> Time) \<Rightarrow> gen_state \<Rightarrow> Time \<times> gen_state" where
  "time_Now now s = (now (now_calls s), s\<lparr>now_calls := Suc (now_calls s)\<rparr>)"

text \<open>
  The two run-time panics an index expression \<open>xs[i % len(xs)]\<close> can raise: the
  remainder by zero and the index out of range. \<open>None\<close> is the panic.
\<close>

definition go_rem :: "nat \<Rightarrow> nat \<Rightarrow> nat option" where
  "go_rem a b = (if b = 0 then None else Some (a mod b))"

definition go_index :: "'a list \<Rightarrow> nat \<Rightarrow> 'a option" where
  "go_index xs i = (if i < length xs then Some (xs ! i) else None)"

text \<open>
  The loop \<open>for i := lo; i <= hi; i++ { body }\<close>, stopping at a panic of the body. The
  counters of the generator run from 1 to at most 1000, far from the bounds of Go's
  \<open>int\<close>, so they are natural numbers here.
\<close>

function for_loop :: "nat \<Rightarrow> nat \<Rightarrow> (nat \<Rightarrow> 's \<Rightarrow> 's option) \<Rightarrow> 's \<Rightarrow> 's option" where
  "for_loop i hi body s =
     (if i \<le> hi then
        (case body i s of None \<Rightarrow> None | Some s' \<Rightarrow> for_loop (Suc i) hi body s')
      else Some s)"
  by pat_completeness auto
termination
  by (relation "measure (\<lambda>(i, hi, body, s). Suc hi - i)") auto

declare for_loop.simps [simp del]

text \<open>The struct literals appended by the loop bodies, as functions of what they read.\<close>

definition Org_literal :: "string \<Rightarrow> Time \<Rightarrow> nat \<Rightarrow> Org" where
  "Org_literal schoolId t i =
     \<lparr>BaseModel.SourcedId = schoolId, Status = ''active'', DateLastModified = t,
      Metadata = Nil,
      Name = ''School #'' @ fmt_d i,
      Org.Type = ''school'',
      Org.Identifier = ''SCH'' @ fmt_0d 3 i,
      Org.Parent = None, Org.Children = []\<rparr>"

definition Student_literal :: "string \<Rightarrow> Time \<Rightarrow> nat \<Rightarrow> Org \<Rightarrow> User" where
  "Student_literal userId t i school =
     \<lparr>BaseModel.SourcedId = userId, Status = ''active'', DateLastModified = t,
      Metadata = Nil,
      Username = ''student'' @ fmt_d i,
      UserIds = [],
      EnabledUser = True,
      GivenName = ''Student'',
      FamilyName = ''User'' @ fmt_d i,
      User.Role = ''student'',
      User.Identifier = ''STU'' @ fmt_0d 4 i,
      Email = ''student'' @ fmt_d i @ ''@example.com'',
      User.Orgs = [\<lparr>Href = ''/orgs/'' @ BaseModel.SourcedId school,
                    GUIDRef.SourcedId = BaseModel.SourcedId school,
                    GUIDRef.Type = ''org''\<rparr>]\<rparr>"

definition Teacher_literal :: "string \<Rightarrow> Time \<Rightarrow> nat \<Rightarrow> Org \<Rightarrow> User" where
  "Teacher_literal userId t i school =
     \<lparr>BaseModel.SourcedId = userId, Status = ''active'', DateLastModified = t,
      Metadata = Nil,
      Username = ''teacher'' @ fmt_d i,
      UserIds = [],
      EnabledUser = True,
      GivenName = ''Teacher'',
      FamilyName = ''User'' @ fmt_d i,
      User.Role = ''teacher'',
      User.Identifier = ''TCH'' @ fmt_0d 4 i,
      Email = ''teacher'' @ fmt_d i @ ''@example.com'',
      User.Orgs = [\<lparr>Href = ''/orgs/'' @ BaseModel.SourcedId school,
                    GUIDRef.SourcedId = BaseModel.SourcedId school,
                    GUIDRef.Type = ''org''\<rparr>]\<rparr>"

definition Term_literal :: "string \<Rightarrow> Time \<Rightarrow> nat \<Rightarrow> AcademicSession" where
  "Term_literal termId t i =
     \<lparr>BaseModel.SourcedId = termId, Status = ''active'', DateLastModified = t,
      Metadata = Nil,
      AcademicSession.Title = ''Fall Semester 202'' @ fmt_d (i + 4),
      StartDate = ''202'' @ fmt_d (i + 4) @ ''-09-01'',
      AcademicSession.EndDate = ''202'' @ fmt_d (i + 4) @ ''-12-20'',
      AcademicSession.Type = ''term'',
      AcademicSession.Parent = None, AcademicSession.Children = [],
      AcademicSession.SchoolYear = ''202'' @ fmt_d (i + 4)\<rparr>"

definition Course_literal :: "string \<Rightarrow> Time \<Rightarrow> nat \<Rightarrow> Course" where
  "Course_literal courseId t i =
     \<lparr>BaseModel.SourcedId = courseId, Status = ''active'', DateLastModified = t,
      Metadata = Nil,
      Course.Title = ''Course '' @ fmt_d i,
      Course.SchoolYear = None,
      CourseCode = ''CRS'' @ fmt_0d 3 i,
      Course.Grades = [],
      Course.Subjects = [''General''],
      Course.SubjectCodes = [], Course.Resources = []\<rparr>"

definition Class_literal :: "string \<Rightarrow> Time \<Rightarrow> nat \<Rightarrow> Course \<Rightarrow> Org \<Rightarrow> AcademicSession \<Rightarrow> Class" where
  "Class_literal classId t i course school term =
     \<lparr>BaseModel.SourcedId = classId, Status = ''active'', DateLastModified = t,
      Metadata = Nil,
      Class.Title = Course.Title course,
      ClassCode = CourseCode course @ ''-S'' @ fmt_d i,
      ClassType = ''scheduled'',
      Location = [],
      Class.Grades = [''10''],
      Class.Subjects = [''General''],
      Class.Course = \<lparr>Href = ''/courses/'' @ BaseModel.SourcedId course,
                       GUIDRef.SourcedId = BaseModel.SourcedId course,
                       GUIDRef.Type = ''course''\<rparr>,
      Class.School = \<lparr>Href = ''/schools/'' @ BaseModel.SourcedId school,
                       GUIDRef.SourcedId = BaseModel.SourcedId school,
                       GUIDRef.Type = ''school''\<rparr>,
      Terms = [\<lparr>Href = ''/terms/'' @ BaseModel.SourcedId term,
                GUIDRef.SourcedId = BaseModel.SourcedId term,
                GUIDRef.Type = ''term''\<rparr>],
      Class.SubjectCodes = [], Periods = [], Class.Resources = []\<rparr>"

text \<open>
  The loop bodies. Each draws an identifier first; the users and the classes then index
  the collections built before, and the clock is read when the literal is evaluated.
\<close>

definition NewDataStore_org :: "(nat \<Rightarrow> string) \<Rightarrow> (nat \<Rightarrow> Time) \<Rightarrow> nat \<Rightarrow> gen_state \<Rightarrow> gen_state option" where
  "NewDataStore_org uuid now i s = do {
     let (schoolId, s) = uuid_New_String uuid s;
     let (t, s) = time_Now now s;
     Some (s\<lparr>DataStore.Orgs := DataStore.Orgs s @ [Org_literal schoolId t i]\<rparr>)
   }"

definition NewDataStore_student :: "(nat \<Rightarrow> string) \<Rightarrow> (nat \<Rightarrow> Time) \<Rightarrow> nat \<Rightarrow> gen_state \<Rightarrow> gen_state option" where
  "NewDataStore_student uuid now i s = do {
     let (userId, s) = uuid_New_String uuid s;
     k \<leftarrow> go_rem i (length (DataStore.Orgs s));
     school \<leftarrow> go_index (DataStore.Orgs s) k;
     let (t, s) = time_Now now s;
     Some (s\<lparr>Users := Users s @ [Student_literal userId t i school]\<rparr>)
   }"

definition NewDataStore_teacher :: "(nat \<Rightarrow> string) \<Rightarrow> (nat \<Rightarrow> Time) \<Rightarrow> nat \<Rightarrow> gen_state \<Rightarrow> gen_state option" where
  "NewDataStore_teacher uuid now i s = do {
     let (userId, s) = uuid_New_String uuid s;
     k \<leftarrow> go_rem i (length (DataStore.Orgs s));
     school \<leftarrow> go_index (DataStore.Orgs s) k;
     let (t, s) = time_Now now s;
     Some (s\<lparr>Users := Users s @ [Teacher_literal userId t i school]\<rparr>)
   }"

definition NewDataStore_term :: "(nat \<Rightarrow> string) \<Rightarrow> (nat \<Rightarrow> Time) \<Rightarrow> nat \<Rightarrow> gen_state \<Rightarrow> gen_state option" where
  "NewDataStore_term uuid now i s = do {
     let (termId, s) = uuid_New_String uuid s;
     let (t, s) = time_Now now s;
     Some (s\<lparr>AcademicSessions := AcademicSessions s @ [Term_literal termId t i]\<rparr>)
   }"

definition NewDataStore_course :: "(nat \<Rightarrow> string) \<Rightarrow> (nat \<Rightarrow> Time) \<Rightarrow> nat \<Rightarrow> gen_state \<Rightarrow> gen_state option" where
  "NewDataStore_course uuid now i s = do {
     let (courseId, s) = uuid_New_String uuid s;
     let (t, s) = time_Now now s;
     Some (s\<lparr>Courses := Courses s @ [Course_literal courseId t i]\<rparr>)
   }"

definition NewDataStore_class :: "(nat \<Rightarrow> string) \<Rightarrow> (nat \<Rightarrow> Time) \<Rightarrow> nat \<Rightarrow> gen_state \<Rightarrow> gen_state option" where
  "NewDataStore_class uuid now i s = do {
     let (classId, s) = uuid_New_String uuid s;
     kc \<leftarrow> go_rem i (length (Courses s));
     course \<leftarrow> go_index (Courses s) kc;
     ks \<leftarrow> go_rem i (length (DataStore.Orgs s));
     school \<leftarrow> go_index (DataStore.Orgs s) ks;
     kt \<leftarrow> go_rem i (length (AcademicSessions s));
     term \<leftarrow> go_index (AcademicSessions s) kt;
     let (t, s) = time_Now now s;
     Some (s\<lparr>Classes := Classes s @ [Class_literal classId t i course school term]\<rparr>)
   }"

text \<open>
  A category is built from \<open>BaseModel{SourcedId: uuid.New().String()}\<close> alone: the other
  base fields keep their zero values, and the clock is not read.
\<close>

definition Category_literal :: "string \<Rightarrow> string \<Rightarrow> int \<Rightarrow> Category" where
  "Category_literal cid title weight =
     \<lparr>BaseModel.SourcedId = cid, Status = [], DateLastModified = Time_zero,
      Metadata = Nil, Category.Title = title, Weight = weight\<rparr>"

definition NewDataStore_category :: "(nat \<Rightarrow> string) \<Rightarrow> string \<Rightarrow> int \<Rightarrow> gen_state \<Rightarrow> Category \<times> gen_state" where
  "NewDataStore_category uuid title weight s =
     (let (cid, s) = uuid_New_String uuid s
      in (Category_literal cid title weight, s))"

definition NewDataStore_categories :: "(nat \<Rightarrow> string) \<Rightarrow> gen_state \<Rightarrow> gen_state" where
  "NewDataStore_categories uuid s =
     (let (c1, s) = NewDataStore_category uuid ''Homework'' 20 s;
          (c2, s) = NewDataStore_category uuid ''Exams'' 50 s;
          (c3, s) = NewDataStore_category uuid ''Participation'' 30 s
      in s\<lparr>Categories := Categories s @ [c1, c2, c3]\<rparr>)"

definition gen_init :: gen_state where
  "gen_init = \<lparr>DataStore.Orgs = [], Users = [], Courses = [], Classes = [], Enrollments = [],
               AcademicSessions = [], Categories = [], uuid_calls = 0, now_calls = 0\<rparr>"

definition NewDataStore :: "(nat \<Rightarrow> string) \<Rightarrow> (nat \<Rightarrow> Time) \<Rightarrow> DataStore option" where
  "NewDataStore uuid now = do {
     s \<leftarrow> for_loop 1 10 (NewDataStore_org uuid now) gen_init;
     s \<leftarrow> for_loop 1 1000 (NewDataStore_student uuid now) s;
     s \<leftarrow> for_loop 1 250 (NewDataStore_teacher uuid now) s;
     s \<leftarrow> for_loop 1 4 (NewDataStore_term uuid now) s;
     s \<leftarrow> for_loop 1 50 (NewDataStore_course uuid now) s;
     s \<leftarrow> for_loop 1 500 (NewDataStore_class uuid now) s;
     Some (DataStore.truncate (NewDataStore_categories uuid s))
   }"

section \<open>The query handlers (APIHandlers)\<close>

text \<open>
  A handler reads the path parameter \<open>id\<close> of the request and the store, and writes one
  response with \<open>writeJSON\<close>: a status code and a JSON object with a single key.
\<close>

record APIHandlers =
  Store :: DataStore

record Request =
  URLParams :: "string \<rightharpoonup> string"

definition URLParam :: "Request \<Rightarrow> string \<Rightarrow> string" where
  "URLParam r key = (case URLParams r key of None \<Rightarrow> [] | Some v \<Rightarrow> v)"

datatype json_data =
    OrgList "Org list" | OrgItem Org
  | UserList "User list" | UserItem User
  | CourseList "Course list" | CourseItem Course
  | ClassList "Class list" | ClassItem Class
  | CategoryList "Category list"
  | EnrollmentList "Enrollment list" | EnrollmentItem Enrollment
  | SessionList "AcademicSession list" | SessionItem AcademicSession
  | Message string

record Response =
  StatusCode :: nat
  ContentType :: string
  Body :: "string \<times> json_data"

definition StatusOK :: nat where
  "StatusOK = 200"

definition StatusNotFound :: nat where
  "StatusNotFound = 404"

definition writeJSON :: "nat \<Rightarrow> string \<times> json_data \<Rightarrow> Response" where
  "writeJSON status data = \<lparr>StatusCode = status, ContentType = ''application/json'', Body = data\<rparr>"

text \<open>
  The two loops of the handlers. \<open>range_first\<close> is
  \<open>for _, x := range xs { if cond x { ...; return } }\<close>: the first element that meets the
  condition, if any. \<open>range_collect\<close> is
  \<open>for _, x := range xs { if cond x { acc = append(acc, x) } }\<close>.
\<close>

fun range_first :: "('a \<Rightarrow> bool) \<Rightarrow> 'a list \<Rightarrow> 'a option" where
  "range_first cond [] = None"
| "range_first cond (x # xs) = (if cond x then Some x else range_first cond xs)"

fun range_collect :: "('a \<Rightarrow> bool) \<Rightarrow> 'a list \<Rightarrow> 'a list \<Rightarrow> 'a list" where
  "range_collect cond [] acc = acc"
| "range_collect cond (x # xs) acc = range_collect cond xs (if cond x then acc @ [x] else acc)"

definition getOrgs :: "APIHandlers \<Rightarrow> Request \<Rightarrow> Response" where
  "getOrgs h r = writeJSON StatusOK (''orgs'', OrgList (DataStore.Orgs (Store h)))"

definition getOrg :: "APIHandlers \<Rightarrow> Request \<Rightarrow> Response" where
  "getOrg h r =
     (let id = URLParam r ''id'' in
      case range_first (\<lambda>org. BaseModel.SourcedId org = id) (DataStore.Orgs (Store h)) of
        Some org \<Rightarrow> writeJSON StatusOK (''org'', OrgItem org)
      | None \<Rightarrow> writeJSON StatusNotFound (''error'', Message ''Org not found''))"

definition getSchools :: "APIHandlers \<Rightarrow> Request \<Rightarrow> Response" where
  "getSchools h r =
     (let schools = range_collect (\<lambda>org. Org.Type org = ''school'') (DataStore.Orgs (Store h)) []
      in writeJSON StatusOK (''orgs'', OrgList schools))"

definition getSchool :: "APIHandlers \<Rightarrow> Request \<Rightarrow> Response" where
  "getSchool h r =
     (let id = URLParam r ''id'' in
      case range_first (\<lambda>org. BaseModel.SourcedId org = id \<and> Org.Type org = ''school'')
             (DataStore.Orgs (Store h)) of
        Some org \<Rightarrow> writeJSON StatusOK (''org'', OrgItem org)
      | None \<Rightarrow> writeJSON StatusNotFound (''error'', Message ''School not found''))"

definition getUsers :: "APIHandlers \<Rightarrow> Request \<Rightarrow> Response" where
  "getUsers h r = writeJSON StatusOK (''users'', UserList (Users (Store h)))"

definition getUser :: "APIHandlers \<Rightarrow> Request \<Rightarrow> Response" where
  "getUser h r =
     (let id = URLParam r ''id'' in
      case range_first (\<lambda>user. BaseModel.SourcedId user = id) (Users (Store h)) of
        Some user \<Rightarrow> writeJSON StatusOK (''user'', UserItem user)
      | None \<Rightarrow> writeJSON StatusNotFound (''error'', Message ''User not found''))"

definition getTeachers :: "APIHandlers \<Rightarrow> Request \<Rightarrow> Response" where
  "getTeachers h r =
     (let teachers = range_collect (\<lambda>user. User.Role user = ''teacher'') (Users (Store h)) []
      in writeJSON StatusOK (''users'', UserList teachers))"

definition getTeacher :: "APIHandlers \<Rightarrow> Request \<Rightarrow> Response" where
  "getTeacher h r =
     (let id = URLParam r ''id'' in
      case range_first (\<lambda>user. BaseModel.SourcedId user = id \<and> User.Role user = ''teacher'')
             (Users (Store h)) of
        Some user \<Rightarrow> writeJSON StatusOK (''user'', UserItem user)
      | None \<Rightarrow> writeJSON StatusNotFound (''error'', Message ''Teacher not found''))"

definition getStudents :: "APIHandlers \<Rightarrow> Request \<Rightarrow> Response" where
  "getStudents h r =
     (let students = range_collect (\<lambda>user. User.Role user = ''student'') (Users (Store h)) []
      in writeJSON StatusOK (''users'', UserList students))"

definition getStudent :: "APIHandlers \<Rightarrow> Request \<Rightarrow> Response" where
  "getStudent h r =
     (let id = URLParam r ''id'' in
      case range_first (\<lambda>user. BaseModel.SourcedId user = id \<and> User.Role user = ''student'')
             (Users (Store h)) of
        Some user \<Rightarrow> writeJSON StatusOK (''user'', UserItem user)
      | None \<Rightarrow> writeJSON StatusNotFound (''error'', Message ''Student not found''))"

definition getCourses :: "APIHandlers \<Rightarrow> Request \<Rightarrow> Response" where
  "getCourses h r = writeJSON StatusOK (''courses'', CourseList (Courses (Store h)))"

definition getCourse :: "APIHandlers \<Rightarrow> Request \<Rightarrow> Response" where
  "getCourse h r =
     (let id = URLParam r ''id'' in
      case range_first (\<lambda>course. BaseModel.SourcedId course = id) (Courses (Store h)) of
        Some course \<Rightarrow> writeJSON StatusOK (''course'', CourseItem course)
      | None \<Rightarrow> writeJSON StatusNotFound (''error'', Message ''Course not found''))"

definition getClasses :: "APIHandlers \<Rightarrow> Request \<Rightarrow> Response" where
  "getClasses h r = writeJSON StatusOK (''classes'', ClassList (Classes (Store h)))"

definition getClass :: "APIHandlers \<Rightarrow> Request \<Rightarrow> Response" where
  "getClass h r =
     (let id = URLParam r ''id'' in
      case range_first (\<lambda>class. BaseModel.SourcedId class = id) (Classes (Store h)) of
        Some class \<Rightarrow> writeJSON StatusOK (''class'', ClassItem class)
      | None \<Rightarrow> writeJSON StatusNotFound (''error'', Message ''Class not found''))"

definition getCategoriesForClass :: "APIHandlers \<Rightarrow> Request \<Rightarrow> Response" where
  "getCategoriesForClass h r =
     writeJSON StatusOK (''categories'', CategoryList (Categories (Store h)))"

definition getEnrollments :: "APIHandlers \<Rightarrow> Request \<Rightarrow> Response" where
  "getEnrollments h r = writeJSON StatusOK (''enrollments'', EnrollmentList (Enrollments (Store h)))"

definition getEnrollment :: "APIHandlers \<Rightarrow> Request \<Rightarrow> Response" where
  "getEnrollment h r =
     (let id = URLParam r ''id'' in
      case range_first (\<lambda>enrollment. BaseModel.SourcedId enrollment = id) (Enrollments (Store h)) of
        Some enrollment \<Rightarrow> writeJSON StatusOK (''enrollment'', EnrollmentItem enrollment)
      | None \<Rightarrow> writeJSON StatusNotFound (''error'', Message ''Enrollment not found''))"

definition getTerms :: "APIHandlers \<Rightarrow> Request \<Rightarrow> Response" where
  "getTerms h r =
     (let terms = range_collect (\<lambda>session. AcademicSession.Type session = ''term'')
                    (AcademicSessions (Store h)) []
      in writeJSON StatusOK (''academicSessions'', SessionList terms))"

definition getTerm :: "APIHandlers \<Rightarrow> Request \<Rightarrow> Response" where
  "getTerm h r =
     (let id = URLParam r ''id'' in
      case range_first (\<lambda>session. BaseModel.SourcedId session = id
                                   \<and> AcademicSession.Type session = ''term'')
             (AcademicSessions (Store h)) of
        Some session \<Rightarrow> writeJSON StatusOK (''academicSession'', SessionItem session)
      | None \<Rightarrow> writeJSON StatusNotFound (''error'', Message ''Term not found''))"

definition getAcademicSessions :: "APIHandlers \<Rightarrow> Request \<Rightarrow> Response" where
  "getAcademicSessions h r =
     writeJSON StatusOK (''academicSessions'', SessionList (AcademicSessions (Store h)))"

definition getAcademicSession :: "APIHandlers \<Rightarrow> Request \<Rightarrow> Response" where
  "getAcademicSession h r =
     (let id = URLParam r ''id'' in
      case range_first (\<lambda>session. BaseModel.SourcedId session = id) (AcademicSessions (Store h)) of
        Some session \<Rightarrow> writeJSON StatusOK (''academicSession'', SessionItem session)
      | None \<Rightarrow> writeJSON StatusNotFound (''error'', Message ''Academic Session not found''))"

definition getGradingPeriods :: "APIHandlers \<Rightarrow> Request \<Rightarrow> Response" where
  "getGradingPeriods h r =
     (let periods = range_collect (\<lambda>session. AcademicSession.Type session = ''gradingPeriod'')
                      (AcademicSessions (Store h)) []
      in writeJSON StatusOK (''academicSessions'', SessionList periods))"

definition getGradingPeriod :: "APIHandlers \<Rightarrow> Request \<Rightarrow> Response" where
  "getGradingPeriod h r =
     (let id = URLParam r ''id'' in
      case range_first (\<lambda>session. BaseModel.SourcedId session = id
                                   \<and> AcademicSession.Type session = ''gradingPeriod'')
             (AcademicSessions (Store h)) of
        Some session \<Rightarrow> writeJSON StatusOK (''academicSession'', SessionItem session)
      | None \<Rightarrow> writeJSON StatusNotFound (''error'', Message ''Grading Period not found''))"

section \<open>The generated store in closed form\<close>

text \<open>
  What the six loops and the category literals produce, written without the loops: the
  \<open>i\<close>-th record of a collection with the identifier and the clock reading it receives.
  The lemmas below prove that \<open>NewDataStore\<close> returns exactly this store.
\<close>

definition generated_orgs :: "(nat \<Rightarrow> string) \<Rightarrow> (nat \<Rightarrow> Time) \<Rightarrow> Org list" where
  "generated_orgs uuid now = map (\<lambda>i. Org_literal (uuid (i - 1)) (now (i - 1)) i) [Suc 0..<11]"

definition generated_students :: "(nat \<Rightarrow> string) \<Rightarrow> (nat \<Rightarrow> Time) \<Rightarrow> User list" where
  "generated_students uuid now =
     map (\<lambda>i. Student_literal (uuid (9 + i)) (now (9 + i)) i (generated_orgs uuid now ! (i mod 10)))
       [Suc 0..<1001]"

definition generated_teachers :: "(nat \<Rightarrow> string) \<Rightarrow> (nat \<Rightarrow> Time) \<Rightarrow> User list" where
  "generated_teachers uuid now =
     map (\<lambda>i. Teacher_literal (uuid (1009 + i)) (now (1009 + i)) i (generated_orgs uuid now ! (i mod 10)))
       [Suc 0..<251]"

definition generated_terms :: "(nat \<Rightarrow> string) \<Rightarrow> (nat \<Rightarrow> Time) \<Rightarrow> AcademicSession list" where
  "generated_terms uuid now = map (\<lambda>i. Term_literal (uuid (1259 + i)) (now (1259 + i)) i) [Suc 0..<5]"

definition generated_courses :: "(nat \<Rightarrow> string) \<Rightarrow> (nat \<Rightarrow> Time) \<Rightarrow> Course list" where
  "generated_courses uuid now = map (\<lambda>i. Course_literal (uuid (1263 + i)) (now (1263 + i)) i) [Suc 0..<51]"

definition generated_classes :: "(nat \<Rightarrow> string) \<Rightarrow> (nat \<Rightarrow> Time) \<Rightarrow> Class list" where
  "generated_classes uuid now =
     map (\<lambda>i. Class_literal (uuid (1313 + i)) (now (1313 + i)) i
                (generated_courses uuid now ! (i mod 50))
                (generated_orgs uuid now ! (i mod 10))
                (generated_terms uuid now ! (i mod 4)))
       [Suc 0..<501]"

definition generated_categories :: "(nat \<Rightarrow> string) \<Rightarrow> Category list" where
  "generated_categories uuid =
     [Category_literal (uuid 1814) ''Homework'' 20,
      Category_literal (uuid 1815) ''Exams'' 50,
      Category_literal (uuid 1816) ''Participation'' 30]"

definition generated_store :: "(nat \<Rightarrow> string) \<Rightarrow> (nat \<Rightarrow> Time) \<Rightarrow> DataStore" where
  "generated_store uuid now =
     \<lparr>DataStore.Orgs = generated_orgs uuid now,
      Users = generated_students uuid now @ generated_teachers uuid now,
      Courses = generated_courses uuid now,
      Classes = generated_classes uuid now,
      Enrollments = [],
      AcademicSessions = generated_terms uuid now,
      Categories = generated_categories uuid\<rparr>"

section \<open>What a lookup by id has to do\<close>

text \<open>
  The contract of a get-by-id operation over the collection \<open>xs\<close> with the fixed
  predicate \<open>P\<close>: when some record has the requested id and satisfies \<open>P\<close>, the
  response is 200 and carries, under \<open>key\<close>, the first such record in the order of the
  collection; when none does, the response is 404 with the message \<open>msg\<close> under
  \<open>error\<close>.
\<close>

definition lookup_correct ::
  "Response \<Rightarrow> string \<Rightarrow> ('a BaseModel_scheme \<Rightarrow> bool) \<Rightarrow> 'a BaseModel_scheme list \<Rightarrow>
   string \<Rightarrow> ('a BaseModel_scheme \<Rightarrow> json_data) \<Rightarrow> string \<Rightarrow> bool" where
  "lookup_correct resp rid P xs key item msg \<longleftrightarrow>
     ((\<exists>x \<in> set xs. BaseModel.SourcedId x = rid \<and> P x) \<longrightarrow>
        (\<exists>i < length xs.
           BaseModel.SourcedId (xs ! i) = rid \<and> P (xs ! i) \<and>
           (\<forall>j < i. \<not> (BaseModel.SourcedId (xs ! j) = rid \<and> P (xs ! j))) \<and>
           resp = \<lparr>StatusCode = 200, ContentType = ''application/json'',
                    Body = (key, item (xs ! i))\<rparr>)) \<and>
     ((\<forall>x \<in> set xs. \<not> (BaseModel.SourcedId x = rid \<and> P x)) \<longrightarrow>
        resp = \<lparr>StatusCode = 404, ContentType = ''application/json'',
                 Body = (''error'', Message msg)\<rparr>)"

section \<open>A concrete identifier source, clock and store\<close>

text \<open>
  An identifier source without collisions and a clock that never reads the zero instant,
  and a small hand-made store, for instantiating the theorems.
\<close>

definition example_uuid :: "nat \<Rightarrow> string" where
  "example_uuid n = replicate (Suc n) (CHR ''u'')"

text \<open>
  An identifier source with a single collision: the second draw repeats the first, every
  other draw is fresh.
\<close>

definition colliding_uuid :: "nat \<Rightarrow> string" where
  "colliding_uuid n = (if n = 1 then example_uuid 0 else example_uuid n)"

definition example_now :: "nat \<Rightarrow> Time" where
  "example_now n = int n + 1"

definition example_request :: "string \<Rightarrow> Request" where
  "example_request v = \<lparr>URLParams = [''id'' \<mapsto> v]\<rparr>"

definition example_handlers :: APIHandlers where
  "example_handlers =
     \<lparr>Store = \<lparr>DataStore.Orgs = [Org_literal ''o1'' 1 1],
                Users = [Student_literal ''s1'' 2 1 (Org_literal ''o1'' 1 1),
                         Teacher_literal ''t1'' 3 1 (Org_literal ''o1'' 1 1),
                         Teacher_literal ''t1'' 4 2 (Org_literal ''o1'' 1 1)],
                Courses = [], Classes = [], Enrollments = [],
                AcademicSessions = [], Categories = []\<rparr>\<rparr>"

section \<open>The struct literals, field by field\<close>

lemma Org_literal_fields [simp]:
  "BaseModel.SourcedId (Org_literal u t i) = u"
  "Status (Org_literal u t i) = ''active''"
  "DateLastModified (Org_literal u t i) = t"
  "Org.Type (Org_literal u t i) = ''school''"
  by (simp_all add: Org_literal_def)

lemma Student_literal_fields [simp]:
  "BaseModel.SourcedId (Student_literal u t i school) = u"
  "Status (Student_literal u t i school) = ''active''"
  "DateLastModified (Student_literal u t i school) = t"
  "User.Role (Student_literal u t i school) = ''student''"
  "User.Orgs (Student_literal u t i school) =
     [\<lparr>Href = ''/orgs/'' @ BaseModel.SourcedId school,
       GUIDRef.SourcedId = BaseModel.SourcedId school, GUIDRef.Type = ''org''\<rparr>]"
  by (simp_all add: Student_literal_def)

lemma Teacher_literal_fields [simp]:
  "BaseModel.SourcedId (Teacher_literal u t i school) = u"
  "Status (Teacher_literal u t i school) = ''active''"
  "DateLastModified (Teacher_literal u t i school) = t"
  "User.Role (Teacher_literal u t i school) = ''teacher''"
  "User.Orgs (Teacher_literal u t i school) =
     [\<lparr>Href = ''/orgs/'' @ BaseModel.SourcedId school,
       GUIDRef.SourcedId = BaseModel.SourcedId school, GUIDRef.Type = ''org''\<rparr>]"
  by (simp_all add: Teacher_literal_def)

lemma Term_literal_fields [simp]:
  "BaseModel.SourcedId (Term_literal u t i) = u"
  "Status (Term_literal u t i) = ''active''"
  "DateLastModified (Term_literal u t i) = t"
  "AcademicSession.Type (Term_literal u t i) = ''term''"
  by (simp_all add: Term_literal_def)

lemma Course_literal_fields [simp]:
  "BaseModel.SourcedId (Course_literal u t i) = u"
  "Status (Course_literal u t i) = ''active''"
  "DateLastModified (Course_literal u t i) = t"
  by (simp_all add: Course_literal_def)

lemma Class_literal_fields [simp]:
  "BaseModel.SourcedId (Class_literal u t i course school term) = u"
  "Status (Class_literal u t i course school term) = ''active''"
  "DateLastModified (Class_literal u t i course school term) = t"
  "Class.Course (Class_literal u t i course school term) =
     \<lparr>Href = ''/courses/'' @ BaseModel.SourcedId course,
      GUIDRef.SourcedId = BaseModel.SourcedId course, GUIDRef.Type = ''course''\<rparr>"
  "Class.School (Class_literal u t i course school term) =
     \<lparr>Href = ''/schools/'' @ BaseModel.SourcedId school,
      GUIDRef.SourcedId = BaseModel.SourcedId school, GUIDRef.Type = ''school''\<rparr>"
  "Terms (Class_literal u t i course school term) =
     [\<lparr>Href = ''/terms/'' @ BaseModel.SourcedId term,
       GUIDRef.SourcedId = BaseModel.SourcedId term, GUIDRef.Type = ''term''\<rparr>]"
  by (simp_all add: Class_literal_def)

lemma Category_literal_fields [simp]:
  "BaseModel.SourcedId (Category_literal u title weight) = u"
  "Status (Category_literal u title weight) = []"
  "DateLastModified (Category_literal u title weight) = Time_zero"
  "Category.Title (Category_literal u title weight) = title"
  by (simp_all add: Category_literal_def)

section \<open>The loops of the generator\<close>

lemma for_loop_empty: "hi < i \<Longrightarrow> for_loop i hi body s = Some s"
  by (simp add: for_loop.simps)

lemma for_loop_Suc:
  "i \<le> Suc hi \<Longrightarrow> for_loop i (Suc hi) body s = Option.bind (for_loop i hi body s) (body (Suc hi))"
proof (induction i hi body s rule: for_loop.induct)
  case (1 i hi body s)
  show ?case
  proof (cases "i \<le> hi")
    case True
    show ?thesis
    proof (cases "body i s")
      case None
      with True show ?thesis
        by (simp add: for_loop.simps [of i])
    next
      case (Some s')
      with True 1 show ?thesis
        by (simp add: for_loop.simps [of i])
    qed
  next
    case False
    with 1 have "i = Suc hi" by simp
    then show ?thesis
      by (simp add: for_loop.simps [of "Suc hi"] for_loop_empty split: option.splits)
  qed
qed

lemma for_loop_last:
  assumes "for_loop (Suc 0) n body s = Some s'"
  shows "for_loop (Suc 0) (Suc n) body s = body (Suc n) s'"
proof -
  have "for_loop (Suc 0) (Suc n) body s = Option.bind (for_loop (Suc 0) n body s) (body (Suc n))"
    by (rule for_loop_Suc) simp
  with assms show ?thesis by simp
qed

lemma for_loop_closed:
  assumes base: "F 0 = s"
    and step: "\<And>n. body (Suc n) (F n) = Some (F (Suc n))"
  shows "for_loop (Suc 0) n body s = Some (F n)"
proof (induction n)
  case 0
  show ?case by (simp add: for_loop_empty base)
next
  case (Suc n)
  from for_loop_last [OF Suc] step show ?case by simp
qed

lemma org_loop:
  "for_loop (Suc 0) n (NewDataStore_org uuid now) s =
     Some (s\<lparr>DataStore.Orgs := DataStore.Orgs s @
                map (\<lambda>i. Org_literal (uuid (uuid_calls s + i - 1)) (now (now_calls s + i - 1)) i)
                  [Suc 0..<Suc n],
             uuid_calls := uuid_calls s + n, now_calls := now_calls s + n\<rparr>)"
  by (rule for_loop_closed)
     (simp_all add: NewDataStore_org_def uuid_New_String_def time_Now_def)

lemma student_loop:
  assumes "DataStore.Orgs s \<noteq> []"
  shows "for_loop (Suc 0) n (NewDataStore_student uuid now) s =
     Some (s\<lparr>Users := Users s @
                map (\<lambda>i. Student_literal (uuid (uuid_calls s + i - 1)) (now (now_calls s + i - 1)) i
                           (DataStore.Orgs s ! (i mod length (DataStore.Orgs s))))
                  [Suc 0..<Suc n],
             uuid_calls := uuid_calls s + n, now_calls := now_calls s + n\<rparr>)"
  using assms
  by (intro for_loop_closed)
     (simp_all add: NewDataStore_student_def uuid_New_String_def time_Now_def go_rem_def go_index_def)

lemma teacher_loop:
  assumes "DataStore.Orgs s \<noteq> []"
  shows "for_loop (Suc 0) n (NewDataStore_teacher uuid now) s =
     Some (s\<lparr>Users := Users s @
                map (\<lambda>i. Teacher_literal (uuid (uuid_calls s + i - 1)) (now (now_calls s + i - 1)) i
                           (DataStore.Orgs s ! (i mod length (DataStore.Orgs s))))
                  [Suc 0..<Suc n],
             uuid_calls := uuid_calls s + n, now_calls := now_calls s + n\<rparr>)"
  using assms
  by (intro for_loop_closed)
     (simp_all add: NewDataStore_teacher_def uuid_New_String_def time_Now_def go_rem_def go_index_def)

lemma term_loop:
  "for_loop (Suc 0) n (NewDataStore_term uuid now) s =
     Some (s\<lparr>AcademicSessions := AcademicSessions s @
                map (\<lambda>i. Term_literal (uuid (uuid_calls s + i - 1)) (now (now_calls s + i - 1)) i)
                  [Suc 0..<Suc n],
             uuid_calls := uuid_calls s + n, now_calls := now_calls s + n\<rparr>)"
  by (rule for_loop_closed)
     (simp_all add: NewDataStore_term_def uuid_New_String_def time_Now_def)

lemma course_loop:
  "for_loop (Suc 0) n (NewDataStore_course uuid now) s =
     Some (s\<lparr>Courses := Courses s @
                map (\<lambda>i. Course_literal (uuid (uuid_calls s + i - 1)) (now (now_calls s + i - 1)) i)
                  [Suc 0..<Suc n],
             uuid_calls := uuid_calls s + n, now_calls := now_calls s + n\<rparr>)"
  by (rule for_loop_closed)
     (simp_all add: NewDataStore_course_def uuid_New_String_def time_Now_def)

lemma class_loop:
  assumes "Courses s \<noteq> []" "DataStore.Orgs s \<noteq> []" "AcademicSessions s \<noteq> []"
  shows "for_loop (Suc 0) n (NewDataStore_class uuid now) s =
     Some (s\<lparr>Classes := Classes s @
                map (\<lambda>i. Class_literal (uuid (uuid_calls s + i - 1)) (now (now_calls s + i - 1)) i
                           (Courses s ! (i mod length (Courses s)))
                           (DataStore.Orgs s ! (i mod length (DataStore.Orgs s)))
                           (AcademicSessions s ! (i mod length (AcademicSessions s))))
                  [Suc 0..<Suc n],
             uuid_calls := uuid_calls s + n, now_calls := now_calls s + n\<rparr>)"
  using assms
  by (intro for_loop_closed)
     (simp_all add: NewDataStore_class_def uuid_New_String_def time_Now_def go_rem_def go_index_def)


lemma categories_step:
  "NewDataStore_categories uuid s =
     s\<lparr>Categories := Categories s @
          [Category_literal (uuid (uuid_calls s)) ''Homework'' 20,
           Category_literal (uuid (Suc (uuid_calls s))) ''Exams'' 50,
           Category_literal (uuid (Suc (Suc (uuid_calls s)))) ''Participation'' 30],
        uuid_calls := uuid_calls s + 3\<rparr>"
  by (simp add: NewDataStore_categories_def NewDataStore_category_def uuid_New_String_def
        Category_literal_def)

lemma NewDataStore_eq: "NewDataStore uuid now = Some (generated_store uuid now)"
  unfolding NewDataStore_def One_nat_def
  by (simp add: org_loop student_loop teacher_loop term_loop course_loop class_loop
        categories_step gen_init_def DataStore.truncate_def generated_store_def
        generated_orgs_def generated_students_def generated_teachers_def generated_terms_def
        generated_courses_def generated_classes_def generated_categories_def Category_literal_def)

section \<open>The loops of the handlers\<close>

lemma range_first_None_iff: "range_first c xs = None \<longleftrightarrow> (\<forall>x \<in> set xs. \<not> c x)"
  by (induction xs) auto

lemma range_first_Some_nth:
  "range_first c xs = Some y \<Longrightarrow> \<exists>i < length xs. xs ! i = y \<and> c y \<and> (\<forall>j < i. \<not> c (xs ! j))"
proof (induction xs)
  case Nil
  then show ?case by simp
next
  case (Cons x xs)
  show ?case
  proof (cases "c x")
    case True
    with Cons.prems have "x = y" by simp
    with True show ?thesis by (intro exI [of _ 0]) simp
  next
    case False
    with Cons obtain i where i: "i < length xs" "xs ! i = y" "c y" "\<forall>j < i. \<not> c (xs ! j)"
      by auto
    have "\<forall>j < Suc i. \<not> c ((x # xs) ! j)"
    proof (intro allI impI)
      fix j assume "j < Suc i"
      with False i(4) show "\<not> c ((x # xs) ! j)" by (cases j) auto
    qed
    with i show ?thesis by (intro exI [of _ "Suc i"]) simp
  qed
qed

lemma lookup_correct_range_first:
  "lookup_correct
     (case range_first (\<lambda>x. BaseModel.SourcedId x = rid \<and> P x) xs of
        None \<Rightarrow> writeJSON StatusNotFound (''error'', Message msg)
      | Some x \<Rightarrow> writeJSON StatusOK (key, item x))
     rid P xs key item msg"
proof (cases "range_first (\<lambda>x. BaseModel.SourcedId x = rid \<and> P x) xs")
  case None
  then have "\<forall>x \<in> set xs. \<not> (BaseModel.SourcedId x = rid \<and> P x)"
    by (simp add: range_first_None_iff)
  with None show ?thesis
    by (simp add: lookup_correct_def writeJSON_def StatusNotFound_def)
next
  case (Some y)
  from range_first_Some_nth [OF Some]
  obtain i where "i < length xs" "xs ! i = y" "BaseModel.SourcedId y = rid \<and> P y"
    "\<forall>j < i. \<not> (BaseModel.SourcedId (xs ! j) = rid \<and> P (xs ! j))"
    by blast
  moreover from this have "\<exists>x \<in> set xs. BaseModel.SourcedId x = rid \<and> P x"
    using nth_mem by blast
  ultimately show ?thesis
    unfolding lookup_correct_def using Some
    by (auto simp: writeJSON_def StatusOK_def)
qed

lemma lookup_correct_range_first_plain:
  "lookup_correct
     (case range_first (\<lambda>x. BaseModel.SourcedId x = rid) xs of
        None \<Rightarrow> writeJSON StatusNotFound (''error'', Message msg)
      | Some x \<Rightarrow> writeJSON StatusOK (key, item x))
     rid (\<lambda>_. True) xs key item msg"
  using lookup_correct_range_first [where P = "\<lambda>_. True"] by simp

lemma getOrg_lookup:
  "lookup_correct (getOrg h r) (URLParam r ''id'') (\<lambda>_. True) (DataStore.Orgs (Store h))
     ''org'' OrgItem ''Org not found''"
  unfolding getOrg_def Let_def by (rule lookup_correct_range_first_plain)

lemma getSchool_lookup:
  "lookup_correct (getSchool h r) (URLParam r ''id'') (\<lambda>org. Org.Type org = ''school'')
     (DataStore.Orgs (Store h)) ''org'' OrgItem ''School not found''"
  unfolding getSchool_def Let_def by (rule lookup_correct_range_first)

lemma getUser_lookup:
  "lookup_correct (getUser h r) (URLParam r ''id'') (\<lambda>_. True) (Users (Store h))
     ''user'' UserItem ''User not found''"
  unfolding getUser_def Let_def by (rule lookup_correct_range_first_plain)

lemma getTeacher_lookup:
  "lookup_correct (getTeacher h r) (URLParam r ''id'') (\<lambda>user. User.Role user = ''teacher'')
     (Users (Store h)) ''user'' UserItem ''Teacher not found''"
  unfolding getTeacher_def Let_def by (rule lookup_correct_range_first)

lemma getStudent_lookup:
  "lookup_correct (getStudent h r) (URLParam r ''id'') (\<lambda>user. User.Role user = ''student'')
     (Users (Store h)) ''user'' UserItem ''Student not found''"
  unfolding getStudent_def Let_def by (rule lookup_correct_range_first)

lemma getCourse_lookup:
  "lookup_correct (getCourse h r) (URLParam r ''id'') (\<lambda>_. True) (Courses (Store h))
     ''course'' CourseItem ''Course not found''"
  unfolding getCourse_def Let_def by (rule lookup_correct_range_first_plain)

lemma getClass_lookup:
  "lookup_correct (getClass h r) (URLParam r ''id'') (\<lambda>_. True) (Classes (Store h))
     ''class'' ClassItem ''Class not found''"
  unfolding getClass_def Let_def by (rule lookup_correct_range_first_plain)

lemma getEnrollment_lookup:
  "lookup_correct (getEnrollment h r) (URLParam r ''id'') (\<lambda>_. True) (Enrollments (Store h))
     ''enrollment'' EnrollmentItem ''Enrollment not found''"
  unfolding getEnrollment_def Let_def by (rule lookup_correct_range_first_plain)

lemma getTerm_lookup:
  "lookup_correct (getTerm h r) (URLParam r ''id'')
     (\<lambda>session. AcademicSession.Type session = ''term'')
     (AcademicSessions (Store h)) ''academicSession'' SessionItem ''Term not found''"
  unfolding getTerm_def Let_def by (rule lookup_correct_range_first)

lemma getAcademicSession_lookup:
  "lookup_correct (getAcademicSession h r) (URLParam r ''id'') (\<lambda>_. True)
     (AcademicSessions (Store h)) ''academicSession'' SessionItem ''Academic Session not found''"
  unfolding getAcademicSession_def Let_def by (rule lookup_correct_range_first_plain)

lemma getGradingPeriod_lookup:
  "lookup_correct (getGradingPeriod h r) (URLParam r ''id'')
     (\<lambda>session. AcademicSession.Type session = ''gradingPeriod'')
     (AcademicSessions (Store h)) ''academicSession'' SessionItem ''Grading Period not found''"
  unfolding getGradingPeriod_def Let_def by (rule lookup_correct_range_first)

lemma range_collect_filter: "range_collect c xs acc = acc @ filter c xs"
  by (induction xs arbitrary: acc) simp_all

lemma example_users:
  "Users (Store example_handlers) =
     [Student_literal ''s1'' 2 1 (Org_literal ''o1'' 1 1),
      Teacher_literal ''t1'' 3 1 (Org_literal ''o1'' 1 1),
      Teacher_literal ''t1'' 4 2 (Org_literal ''o1'' 1 1)]"
  by (simp add: example_handlers_def)

lemma example_param: "URLParam (example_request v) ''id'' = v"
  by (simp add: example_request_def URLParam_def)

section \<open>Lookup by id\<close>

text \<open>
  C4. Every get-by-id handler meets the lookup contract on every store and every request:
  when a record of its collection has the requested id (and satisfies the handler's fixed
  predicate), the response is 200 with the first such record, whose \<open>sourcedId\<close> is the
  requested id; when no record does, in particular when no record has that id, the response
  is the 404 of the handler and nothing else.
\<close>

theorem get_by_id_lookup_correct:
  "lookup_correct (getOrg h r) (URLParam r ''id'') (\<lambda>_. True) (DataStore.Orgs (Store h))
     ''org'' OrgItem ''Org not found'' \<and>
   lookup_correct (getSchool h r) (URLParam r ''id'') (\<lambda>org. Org.Type org = ''school'')
     (DataStore.Orgs (Store h)) ''org'' OrgItem ''School not found'' \<and>
   lookup_correct (getUser h r) (URLParam r ''id'') (\<lambda>_. True) (Users (Store h))
     ''user'' UserItem ''User not found'' \<and>
   lookup_correct (getTeacher h r) (URLParam r ''id'') (\<lambda>user. User.Role user = ''teacher'')
     (Users (Store h)) ''user'' UserItem ''Teacher not found'' \<and>
   lookup_correct (getStudent h r) (URLParam r ''id'') (\<lambda>user. User.Role user = ''student'')
     (Users (Store h)) ''user'' UserItem ''Student not found'' \<and>
   lookup_correct (getCourse h r) (URLParam r ''id'') (\<lambda>_. True) (Courses (Store h))
     ''course'' CourseItem ''Course not found'' \<and>
   lookup_correct (getClass h r) (URLParam r ''id'') (\<lambda>_. True) (Classes (Store h))
     ''class'' ClassItem ''Class not found'' \<and>
   lookup_correct (getEnrollment h r) (URLParam r ''id'') (\<lambda>_. True) (Enrollments (Store h))
     ''enrollment'' EnrollmentItem ''Enrollment not found'' \<and>
   lookup_correct (getTerm h r) (URLParam r ''id'')
     (\<lambda>session. AcademicSession.Type session = ''term'')
     (AcademicSessions (Store h)) ''academicSession'' SessionItem ''Term not found'' \<and>
   lookup_correct (getAcademicSession h r) (URLParam r ''id'') (\<lambda>_. True)
     (AcademicSessions (Store h)) ''academicSession'' SessionItem ''Academic Session not found'' \<and>
   lookup_correct (getGradingPeriod h r) (URLParam r ''id'')
     (\<lambda>session. AcademicSession.Type session = ''gradingPeriod'')
     (AcademicSessions (Store h)) ''academicSession'' SessionItem ''Grading Period not found''"
  by (intro conjI getOrg_lookup getSchool_lookup getUser_lookup getTeacher_lookup
        getStudent_lookup getCourse_lookup getClass_lookup getEnrollment_lookup getTerm_lookup
        getAcademicSession_lookup getGradingPeriod_lookup)

text \<open>
  The theorem at the hand-made store: two teachers share the id \<open>t1\<close> and the first one is
  returned; \<open>s1\<close> is the id of a student, so the teacher lookup answers 404.
\<close>

theorem get_by_id_lookup_correct_witness:
  "(\<exists>x \<in> set (Users (Store example_handlers)).
      BaseModel.SourcedId x = ''t1'' \<and> User.Role x = ''teacher'') \<and>
   getTeacher example_handlers (example_request ''t1'') =
     \<lparr>StatusCode = 200, ContentType = ''application/json'',
      Body = (''user'', UserItem (Teacher_literal ''t1'' 3 1 (Org_literal ''o1'' 1 1)))\<rparr> \<and>
   \<not> (\<exists>x \<in> set (Users (Store example_handlers)).
      BaseModel.SourcedId x = ''s1'' \<and> User.Role x = ''teacher'') \<and>
   getTeacher example_handlers (example_request ''s1'') =
     \<lparr>StatusCode = 404, ContentType = ''application/json'',
      Body = (''error'', Message ''Teacher not found'')\<rparr>"
proof -
  let ?xs = "Users (Store example_handlers)"
  have found: "\<exists>x \<in> set ?xs. BaseModel.SourcedId x = ''t1'' \<and> User.Role x = ''teacher''"
    by (simp add: example_users)
  have absent: "\<forall>x \<in> set ?xs. \<not> (BaseModel.SourcedId x = ''s1'' \<and> User.Role x = ''teacher'')"
    by (simp add: example_users)
  have t: "lookup_correct (getTeacher example_handlers (example_request ''t1'')) ''t1''
             (\<lambda>user. User.Role user = ''teacher'') ?xs ''user'' UserItem ''Teacher not found''"
    using get_by_id_lookup_correct [of example_handlers "example_request ''t1''"]
    by (simp only: example_param)
  have s: "lookup_correct (getTeacher example_handlers (example_request ''s1'')) ''s1''
             (\<lambda>user. User.Role user = ''teacher'') ?xs ''user'' UserItem ''Teacher not found''"
    using get_by_id_lookup_correct [of example_handlers "example_request ''s1''"]
    by (simp only: example_param)
  from t found obtain i where i: "i < length ?xs"
      "\<forall>j < i. \<not> (BaseModel.SourcedId (?xs ! j) = ''t1'' \<and> User.Role (?xs ! j) = ''teacher'')"
      "BaseModel.SourcedId (?xs ! i) = ''t1''" "User.Role (?xs ! i) = ''teacher''"
      "getTeacher example_handlers (example_request ''t1'') =
         \<lparr>StatusCode = 200, ContentType = ''application/json'', Body = (''user'', UserItem (?xs ! i))\<rparr>"
    unfolding lookup_correct_def by blast
  have "i = 1"
  proof -
    from i(1) consider "i = 0" | "i = 1" | "i = 2"
      by (simp add: example_users) arith
    then show ?thesis
    proof cases
      case 1
      with i(4) show ?thesis by (simp add: example_users)
    next
      case 2
      then show ?thesis .
    next
      case 3
      with i(2) have "\<not> (BaseModel.SourcedId (?xs ! 1) = ''t1'' \<and> User.Role (?xs ! 1) = ''teacher'')"
        by simp
      then show ?thesis by (simp add: example_users)
    qed
  qed
  with i(5) have ok: "getTeacher example_handlers (example_request ''t1'') =
     \<lparr>StatusCode = 200, ContentType = ''application/json'',
      Body = (''user'', UserItem (Teacher_literal ''t1'' 3 1 (Org_literal ''o1'' 1 1)))\<rparr>"
    by (simp add: example_users)
  from s absent have nf: "getTeacher example_handlers (example_request ''s1'') =
     \<lparr>StatusCode = 404, ContentType = ''application/json'',
      Body = (''error'', Message ''Teacher not found'')\<rparr>"
    unfolding lookup_correct_def by blast
  from found ok absent nf show ?thesis by blast
qed

section \<open>Filtered lists\<close>

text \<open>
  C5. On every store, each filtered list handler returns the result of the corresponding
  list-all handler filtered by its fixed predicate: the records that satisfy it, all of
  them, in the same relative order.
\<close>

theorem filtered_lists_are_filters:
  "(\<exists>all. getOrgs h r = \<lparr>StatusCode = 200, ContentType = ''application/json'',
                           Body = (''orgs'', OrgList all)\<rparr> \<and>
          getSchools h r = \<lparr>StatusCode = 200, ContentType = ''application/json'',
                           Body = (''orgs'', OrgList (filter (\<lambda>org. Org.Type org = ''school'') all))\<rparr>) \<and>
   (\<exists>all. getUsers h r = \<lparr>StatusCode = 200, ContentType = ''application/json'',
                           Body = (''users'', UserList all)\<rparr> \<and>
          getTeachers h r = \<lparr>StatusCode = 200, ContentType = ''application/json'',
                           Body = (''users'', UserList (filter (\<lambda>user. User.Role user = ''teacher'') all))\<rparr> \<and>
          getStudents h r = \<lparr>StatusCode = 200, ContentType = ''application/json'',
                           Body = (''users'', UserList (filter (\<lambda>user. User.Role user = ''student'') all))\<rparr>) \<and>
   (\<exists>all. getAcademicSessions h r = \<lparr>StatusCode = 200, ContentType = ''application/json'',
                           Body = (''academicSessions'', SessionList all)\<rparr> \<and>
          getTerms h r = \<lparr>StatusCode = 200, ContentType = ''application/json'',
                           Body = (''academicSessions'',
                                   SessionList (filter (\<lambda>session. AcademicSession.Type session = ''term'') all))\<rparr> \<and>
          getGradingPeriods h r = \<lparr>StatusCode = 200, ContentType = ''application/json'',
                           Body = (''academicSessions'',
                                   SessionList (filter (\<lambda>session. AcademicSession.Type session = ''gradingPeriod'') all))\<rparr>)"
  by (simp add: getOrgs_def getSchools_def getUsers_def getTeachers_def getStudents_def
        getAcademicSessions_def getTerms_def getGradingPeriods_def writeJSON_def StatusOK_def
        range_collect_filter)

section \<open>The generated store\<close>

lemma generated_store_fields [simp]:
  "DataStore.Orgs (generated_store uuid now) = generated_orgs uuid now"
  "Users (generated_store uuid now) = generated_students uuid now @ generated_teachers uuid now"
  "Courses (generated_store uuid now) = generated_courses uuid now"
  "Classes (generated_store uuid now) = generated_classes uuid now"
  "Enrollments (generated_store uuid now) = []"
  "AcademicSessions (generated_store uuid now) = generated_terms uuid now"
  "Categories (generated_store uuid now) = generated_categories uuid"
  by (simp_all add: generated_store_def)

lemma generated_lengths [simp]:
  "length (generated_orgs uuid now) = 10"
  "length (generated_students uuid now) = 1000"
  "length (generated_teachers uuid now) = 250"
  "length (generated_terms uuid now) = 4"
  "length (generated_courses uuid now) = 50"
  "length (generated_classes uuid now) = 500"
  "length (generated_categories uuid) = 3"
  by (simp_all add: generated_orgs_def generated_students_def generated_teachers_def
        generated_terms_def generated_courses_def generated_classes_def
        generated_categories_def)

lemma generated_roles:
  "map User.Role (generated_students uuid now) = replicate 1000 ''student''"
  "map User.Role (generated_teachers uuid now) = replicate 250 ''teacher''"
  by (simp_all add: generated_students_def generated_teachers_def comp_def map_replicate_const)

text \<open>
  C1. Whatever identifiers are drawn and whatever the clock reads, \<open>NewDataStore\<close> returns
  a store (it never panics) with exactly 10 orgs, 1250 users, of which the first 1000 have
  the role \<open>student\<close> and the last 250 the role \<open>teacher\<close>, 4 academic sessions, 50
  courses, 500 classes, 3 categories and no enrollment.
\<close>

theorem NewDataStore_cardinalities:
  "\<exists>ds. NewDataStore uuid now = Some ds \<and>
     length (DataStore.Orgs ds) = 10 \<and>
     length (Users ds) = 1250 \<and>
     map User.Role (Users ds) = replicate 1000 ''student'' @ replicate 250 ''teacher'' \<and>
     length (AcademicSessions ds) = 4 \<and>
     length (Courses ds) = 50 \<and>
     length (Classes ds) = 500 \<and>
     length (Categories ds) = 3 \<and>
     length (Enrollments ds) = 0"
  by (simp add: NewDataStore_eq generated_roles)

lemma generated_nth:
  "k < 10 \<Longrightarrow> generated_orgs uuid now ! k = Org_literal (uuid k) (now k) (Suc k)"
  "k < 1000 \<Longrightarrow> generated_students uuid now ! k =
     Student_literal (uuid (10 + k)) (now (10 + k)) (Suc k) (generated_orgs uuid now ! (Suc k mod 10))"
  "k < 250 \<Longrightarrow> generated_teachers uuid now ! k =
     Teacher_literal (uuid (1010 + k)) (now (1010 + k)) (Suc k) (generated_orgs uuid now ! (Suc k mod 10))"
  "k < 4 \<Longrightarrow> generated_terms uuid now ! k = Term_literal (uuid (1260 + k)) (now (1260 + k)) (Suc k)"
  "k < 50 \<Longrightarrow> generated_courses uuid now ! k = Course_literal (uuid (1264 + k)) (now (1264 + k)) (Suc k)"
  "k < 500 \<Longrightarrow> generated_classes uuid now ! k =
     Class_literal (uuid (1314 + k)) (now (1314 + k)) (Suc k)
       (generated_courses uuid now ! (Suc k mod 50))
       (generated_orgs uuid now ! (Suc k mod 10))
       (generated_terms uuid now ! (Suc k mod 4))"
  by (simp_all add: generated_orgs_def generated_students_def generated_teachers_def
        generated_terms_def generated_courses_def generated_classes_def)

lemma generated_role_filters [simp]:
  "filter (\<lambda>u. User.Role u = ''student'') (generated_students uuid now) = generated_students uuid now"
  "filter (\<lambda>u. User.Role u = ''student'') (generated_teachers uuid now) = []"
  "filter (\<lambda>u. User.Role u = ''teacher'') (generated_students uuid now) = []"
  "filter (\<lambda>u. User.Role u = ''teacher'') (generated_teachers uuid now) = generated_teachers uuid now"
  by (simp_all add: generated_students_def generated_teachers_def filter_map comp_def)

text \<open>
  C2. In the generated store, the \<open>k\<close>-th student (\<open>k\<close> from 1 to 1000, counted among the
  users with the role \<open>student\<close>) and the \<open>k\<close>-th teacher (\<open>k\<close> from 1 to 250) carry
  exactly one org reference, to the org at position \<open>k mod 10\<close>; the \<open>k\<close>-th class
  (\<open>k\<close> from 1 to 500) refers to the course at position \<open>k mod 50\<close>, to the org at
  position \<open>k mod 10\<close> as its school and, as its single term, to the academic session at
  position \<open>k mod 4\<close>. Positions count from 0 in generation order.
\<close>

theorem round_robin_assignment:
  assumes "NewDataStore uuid now = Some ds"
  shows "(\<forall>k. 1 \<le> k \<and> k \<le> 1000 \<longrightarrow>
            User.Orgs (filter (\<lambda>u. User.Role u = ''student'') (Users ds) ! (k - 1)) =
              [\<lparr>Href = ''/orgs/'' @ BaseModel.SourcedId (DataStore.Orgs ds ! (k mod 10)),
                GUIDRef.SourcedId = BaseModel.SourcedId (DataStore.Orgs ds ! (k mod 10)),
                GUIDRef.Type = ''org''\<rparr>]) \<and>
         (\<forall>k. 1 \<le> k \<and> k \<le> 250 \<longrightarrow>
            User.Orgs (filter (\<lambda>u. User.Role u = ''teacher'') (Users ds) ! (k - 1)) =
              [\<lparr>Href = ''/orgs/'' @ BaseModel.SourcedId (DataStore.Orgs ds ! (k mod 10)),
                GUIDRef.SourcedId = BaseModel.SourcedId (DataStore.Orgs ds ! (k mod 10)),
                GUIDRef.Type = ''org''\<rparr>]) \<and>
         (\<forall>k. 1 \<le> k \<and> k \<le> 500 \<longrightarrow>
            Class.Course (Classes ds ! (k - 1)) =
              \<lparr>Href = ''/courses/'' @ BaseModel.SourcedId (Courses ds ! (k mod 50)),
               GUIDRef.SourcedId = BaseModel.SourcedId (Courses ds ! (k mod 50)),
               GUIDRef.Type = ''course''\<rparr> \<and>
            Class.School (Classes ds ! (k - 1)) =
              \<lparr>Href = ''/schools/'' @ BaseModel.SourcedId (DataStore.Orgs ds ! (k mod 10)),
               GUIDRef.SourcedId = BaseModel.SourcedId (DataStore.Orgs ds ! (k mod 10)),
               GUIDRef.Type = ''school''\<rparr> \<and>
            Terms (Classes ds ! (k - 1)) =
              [\<lparr>Href = ''/terms/'' @ BaseModel.SourcedId (AcademicSessions ds ! (k mod 4)),
                GUIDRef.SourcedId = BaseModel.SourcedId (AcademicSessions ds ! (k mod 4)),
                GUIDRef.Type = ''term''\<rparr>])"
proof -
  from assms have ds: "ds = generated_store uuid now"
    by (simp add: NewDataStore_eq)
  have pred: "Suc (k - Suc 0) = k" if "Suc 0 \<le> k \<and> k \<le> n" for k n :: nat
    using that by simp
  show ?thesis
  proof (intro conjI allI impI)
    fix k :: nat assume k: "1 \<le> k \<and> k \<le> 1000"
    then have "k - 1 < 1000" by arith
    with k show "User.Orgs (filter (\<lambda>u. User.Role u = ''student'') (Users ds) ! (k - 1)) =
              [\<lparr>Href = ''/orgs/'' @ BaseModel.SourcedId (DataStore.Orgs ds ! (k mod 10)),
                GUIDRef.SourcedId = BaseModel.SourcedId (DataStore.Orgs ds ! (k mod 10)),
                GUIDRef.Type = ''org''\<rparr>]"
      by (simp add: ds generated_nth pred)
  next
    fix k :: nat assume k: "1 \<le> k \<and> k \<le> 250"
    then have "k - 1 < 250" by arith
    with k show "User.Orgs (filter (\<lambda>u. User.Role u = ''teacher'') (Users ds) ! (k - 1)) =
              [\<lparr>Href = ''/orgs/'' @ BaseModel.SourcedId (DataStore.Orgs ds ! (k mod 10)),
                GUIDRef.SourcedId = BaseModel.SourcedId (DataStore.Orgs ds ! (k mod 10)),
                GUIDRef.Type = ''org''\<rparr>]"
      by (simp add: ds generated_nth pred)
  next
    fix k :: nat assume k: "1 \<le> k \<and> k \<le> 500"
    then have lt: "k - 1 < 500" by arith
    from k lt show "Class.Course (Classes ds ! (k - 1)) =
              \<lparr>Href = ''/courses/'' @ BaseModel.SourcedId (Courses ds ! (k mod 50)),
               GUIDRef.SourcedId = BaseModel.SourcedId (Courses ds ! (k mod 50)),
               GUIDRef.Type = ''course''\<rparr>"
      by (simp add: ds generated_nth pred)
    from k lt show "Class.School (Classes ds ! (k - 1)) =
              \<lparr>Href = ''/schools/'' @ BaseModel.SourcedId (DataStore.Orgs ds ! (k mod 10)),
               GUIDRef.SourcedId = BaseModel.SourcedId (DataStore.Orgs ds ! (k mod 10)),
               GUIDRef.Type = ''school''\<rparr>"
      by (simp add: ds generated_nth pred)
    from k lt show "Terms (Classes ds ! (k - 1)) =
              [\<lparr>Href = ''/terms/'' @ BaseModel.SourcedId (AcademicSessions ds ! (k mod 4)),
                GUIDRef.SourcedId = BaseModel.SourcedId (AcademicSessions ds ! (k mod 4)),
                GUIDRef.Type = ''term''\<rparr>]"
      by (simp add: ds generated_nth pred)
  qed
qed

text \<open>
  The theorem at the example identifier source: student 7, teacher 250 and class 57.
\<close>

theorem round_robin_assignment_witness:
  "\<exists>ds. NewDataStore example_uuid example_now = Some ds \<and>
     User.Orgs (filter (\<lambda>u. User.Role u = ''student'') (Users ds) ! (7 - 1)) =
       [\<lparr>Href = ''/orgs/'' @ example_uuid 7, GUIDRef.SourcedId = example_uuid 7,
         GUIDRef.Type = ''org''\<rparr>] \<and>
     User.Orgs (filter (\<lambda>u. User.Role u = ''teacher'') (Users ds) ! (250 - 1)) =
       [\<lparr>Href = ''/orgs/'' @ example_uuid 0, GUIDRef.SourcedId = example_uuid 0,
         GUIDRef.Type = ''org''\<rparr>] \<and>
     Class.Course (Classes ds ! (57 - 1)) =
       \<lparr>Href = ''/courses/'' @ example_uuid 1271, GUIDRef.SourcedId = example_uuid 1271,
        GUIDRef.Type = ''course''\<rparr> \<and>
     Class.School (Classes ds ! (57 - 1)) =
       \<lparr>Href = ''/schools/'' @ example_uuid 7, GUIDRef.SourcedId = example_uuid 7,
        GUIDRef.Type = ''school''\<rparr> \<and>
     Terms (Classes ds ! (57 - 1)) =
       [\<lparr>Href = ''/terms/'' @ example_uuid 1261, GUIDRef.SourcedId = example_uuid 1261,
         GUIDRef.Type = ''term''\<rparr>]"
proof -
  let ?ds = "generated_store example_uuid example_now"
  have gen: "NewDataStore example_uuid example_now = Some ?ds"
    by (rule NewDataStore_eq)
  note rr = round_robin_assignment [OF gen]
  have ids: "BaseModel.SourcedId (DataStore.Orgs ?ds ! (7 mod 10)) = example_uuid 7"
    "BaseModel.SourcedId (DataStore.Orgs ?ds ! (250 mod 10)) = example_uuid 0"
    "BaseModel.SourcedId (Courses ?ds ! (57 mod 50)) = example_uuid 1271"
    "BaseModel.SourcedId (DataStore.Orgs ?ds ! (57 mod 10)) = example_uuid 7"
    "BaseModel.SourcedId (AcademicSessions ?ds ! (57 mod 4)) = example_uuid 1261"
    by (simp_all add: generated_nth)
  have student: "User.Orgs (filter (\<lambda>u. User.Role u = ''student'') (Users ?ds) ! (7 - 1)) =
       [\<lparr>Href = ''/orgs/'' @ example_uuid 7, GUIDRef.SourcedId = example_uuid 7,
         GUIDRef.Type = ''org''\<rparr>]"
    using rr [THEN conjunct1, THEN spec, of 7] by (simp only: ids) simp
  have teacher: "User.Orgs (filter (\<lambda>u. User.Role u = ''teacher'') (Users ?ds) ! (250 - 1)) =
       [\<lparr>Href = ''/orgs/'' @ example_uuid 0, GUIDRef.SourcedId = example_uuid 0,
         GUIDRef.Type = ''org''\<rparr>]"
    using rr [THEN conjunct2, THEN conjunct1, THEN spec, of 250] by (simp only: ids) simp
  have "class": "Class.Course (Classes ?ds ! (57 - 1)) =
       \<lparr>Href = ''/courses/'' @ example_uuid 1271, GUIDRef.SourcedId = example_uuid 1271,
        GUIDRef.Type = ''course''\<rparr> \<and>
     Class.School (Classes ?ds ! (57 - 1)) =
       \<lparr>Href = ''/schools/'' @ example_uuid 7, GUIDRef.SourcedId = example_uuid 7,
        GUIDRef.Type = ''school''\<rparr> \<and>
     Terms (Classes ?ds ! (57 - 1)) =
       [\<lparr>Href = ''/terms/'' @ example_uuid 1261, GUIDRef.SourcedId = example_uuid 1261,
         GUIDRef.Type = ''term''\<rparr>]"
    using rr [THEN conjunct2, THEN conjunct2, THEN spec, of 57] by (simp only: ids) simp
  from gen student teacher "class" show ?thesis by blast
qed

section \<open>References resolve\<close>

lemma generated_org_mem: "generated_orgs uuid now ! (i mod 10) \<in> set (generated_orgs uuid now)"
  by (rule nth_mem) simp

lemma generated_course_mem: "generated_courses uuid now ! (i mod 50) \<in> set (generated_courses uuid now)"
  by (rule nth_mem) simp

lemma generated_term_mem: "generated_terms uuid now ! (i mod 4) \<in> set (generated_terms uuid now)"
  by (rule nth_mem) simp

lemma generated_user_refs:
  assumes "u \<in> set (generated_students uuid now @ generated_teachers uuid now)"
  shows "\<exists>org \<in> set (generated_orgs uuid now).
           User.Orgs u = [\<lparr>Href = ''/orgs/'' @ BaseModel.SourcedId org,
                            GUIDRef.SourcedId = BaseModel.SourcedId org, GUIDRef.Type = ''org''\<rparr>]"
  using assms generated_org_mem [of uuid now]
  by (auto simp: generated_students_def generated_teachers_def)

lemma generated_class_refs:
  assumes "c \<in> set (generated_classes uuid now)"
  shows "\<exists>course \<in> set (generated_courses uuid now).
         \<exists>org \<in> set (generated_orgs uuid now).
         \<exists>term \<in> set (generated_terms uuid now).
           Class.Course c = \<lparr>Href = ''/courses/'' @ BaseModel.SourcedId course,
                              GUIDRef.SourcedId = BaseModel.SourcedId course, GUIDRef.Type = ''course''\<rparr> \<and>
           Class.School c = \<lparr>Href = ''/schools/'' @ BaseModel.SourcedId org,
                              GUIDRef.SourcedId = BaseModel.SourcedId org, GUIDRef.Type = ''school''\<rparr> \<and>
           Terms c = [\<lparr>Href = ''/terms/'' @ BaseModel.SourcedId term,
                        GUIDRef.SourcedId = BaseModel.SourcedId term, GUIDRef.Type = ''term''\<rparr>]"
proof -
  from assms obtain i where
    "c = Class_literal (uuid (1313 + i)) (now (1313 + i)) i
           (generated_courses uuid now ! (i mod 50))
           (generated_orgs uuid now ! (i mod 10))
           (generated_terms uuid now ! (i mod 4))"
    by (auto simp: generated_classes_def)
  then show ?thesis
    using generated_course_mem [of uuid now i] generated_org_mem [of uuid now i]
      generated_term_mem [of uuid now i]
    by (intro bexI [of _ "generated_courses uuid now ! (i mod 50)"]
              bexI [of _ "generated_orgs uuid now ! (i mod 10)"]
              bexI [of _ "generated_terms uuid now ! (i mod 4)"]) simp_all
qed

text \<open>
  C3. In the generated store every user has one org reference and its \<open>sourcedId\<close> is the
  \<open>sourcedId\<close> of an org of the store; for every class the \<open>sourcedId\<close>s of its course
  reference, of its school reference and of its single term reference are those of a course,
  of an org and of an academic session of the store.
\<close>

theorem referential_validity:
  assumes "NewDataStore uuid now = Some ds"
  shows "(\<forall>u \<in> set (Users ds).
            length (User.Orgs u) = 1 \<and>
            (\<forall>r \<in> set (User.Orgs u).
               \<exists>org \<in> set (DataStore.Orgs ds). BaseModel.SourcedId org = GUIDRef.SourcedId r)) \<and>
         (\<forall>c \<in> set (Classes ds).
            (\<exists>course \<in> set (Courses ds).
               BaseModel.SourcedId course = GUIDRef.SourcedId (Class.Course c)) \<and>
            (\<exists>org \<in> set (DataStore.Orgs ds).
               BaseModel.SourcedId org = GUIDRef.SourcedId (Class.School c)) \<and>
            length (Terms c) = 1 \<and>
            (\<forall>r \<in> set (Terms c).
               \<exists>term \<in> set (AcademicSessions ds). BaseModel.SourcedId term = GUIDRef.SourcedId r))"
proof -
  from assms have ds: "ds = generated_store uuid now"
    by (simp add: NewDataStore_eq)
  show ?thesis
  proof (intro conjI ballI)
    fix u assume "u \<in> set (Users ds)"
    then obtain org where org: "org \<in> set (DataStore.Orgs ds)"
      "User.Orgs u = [\<lparr>Href = ''/orgs/'' @ BaseModel.SourcedId org,
                        GUIDRef.SourcedId = BaseModel.SourcedId org, GUIDRef.Type = ''org''\<rparr>]"
      using generated_user_refs [of u uuid now] by (auto simp: ds)
    from org(2) show "length (User.Orgs u) = 1" by simp
    fix r assume "r \<in> set (User.Orgs u)"
    with org show "\<exists>org \<in> set (DataStore.Orgs ds). BaseModel.SourcedId org = GUIDRef.SourcedId r"
      by auto
  next
    fix c assume "c \<in> set (Classes ds)"
    then obtain course org "term" where refs:
      "course \<in> set (Courses ds)" "org \<in> set (DataStore.Orgs ds)" "term \<in> set (AcademicSessions ds)"
      "Class.Course c = \<lparr>Href = ''/courses/'' @ BaseModel.SourcedId course,
                          GUIDRef.SourcedId = BaseModel.SourcedId course, GUIDRef.Type = ''course''\<rparr>"
      "Class.School c = \<lparr>Href = ''/schools/'' @ BaseModel.SourcedId org,
                          GUIDRef.SourcedId = BaseModel.SourcedId org, GUIDRef.Type = ''school''\<rparr>"
      "Terms c = [\<lparr>Href = ''/terms/'' @ BaseModel.SourcedId term,
                    GUIDRef.SourcedId = BaseModel.SourcedId term, GUIDRef.Type = ''term''\<rparr>]"
      using generated_class_refs [of c uuid now] by (auto simp: ds)
    from refs(1,4) show "\<exists>course \<in> set (Courses ds).
        BaseModel.SourcedId course = GUIDRef.SourcedId (Class.Course c)"
      by auto
    from refs(2,5) show "\<exists>org \<in> set (DataStore.Orgs ds).
        BaseModel.SourcedId org = GUIDRef.SourcedId (Class.School c)"
      by auto
    from refs(6) show "length (Terms c) = 1" by simp
    fix r assume "r \<in> set (Terms c)"
    with refs(3,6) show "\<exists>term \<in> set (AcademicSessions ds). BaseModel.SourcedId term = GUIDRef.SourcedId r"
      by auto
  qed
qed

text \<open>
  The theorem at the example identifier source, for the first user and the first class.
\<close>

theorem referential_validity_witness:
  "\<exists>ds. NewDataStore example_uuid example_now = Some ds \<and>
     Users ds ! 0 \<in> set (Users ds) \<and>
     User.Orgs (Users ds ! 0) =
       [\<lparr>Href = ''/orgs/'' @ example_uuid 1, GUIDRef.SourcedId = example_uuid 1,
         GUIDRef.Type = ''org''\<rparr>] \<and>
     (\<exists>org \<in> set (DataStore.Orgs ds). BaseModel.SourcedId org = example_uuid 1) \<and>
     Classes ds ! 0 \<in> set (Classes ds) \<and>
     GUIDRef.SourcedId (Class.Course (Classes ds ! 0)) = example_uuid 1265 \<and>
     (\<exists>course \<in> set (Courses ds). BaseModel.SourcedId course = example_uuid 1265)"
proof -
  let ?ds = "generated_store example_uuid example_now"
  have gen: "NewDataStore example_uuid example_now = Some ?ds"
    by (rule NewDataStore_eq)
  note rv = referential_validity [OF gen]
  have u: "Users ?ds ! 0 \<in> set (Users ?ds)"
    by (rule nth_mem) simp
  have c: "Classes ?ds ! 0 \<in> set (Classes ?ds)"
    by (rule nth_mem) simp
  have uo: "User.Orgs (Users ?ds ! 0) =
       [\<lparr>Href = ''/orgs/'' @ example_uuid 1, GUIDRef.SourcedId = example_uuid 1,
         GUIDRef.Type = ''org''\<rparr>]"
    by (simp add: nth_append generated_nth)
  have cc: "GUIDRef.SourcedId (Class.Course (Classes ?ds ! 0)) = example_uuid 1265"
    by (simp add: generated_nth)
  from rv [THEN conjunct1, THEN bspec, OF u] uo
  have 1: "\<exists>org \<in> set (DataStore.Orgs ?ds). BaseModel.SourcedId org = example_uuid 1"
    by simp
  from rv [THEN conjunct2, THEN bspec, OF c] cc
  have 2: "\<exists>course \<in> set (Courses ?ds). BaseModel.SourcedId course = example_uuid 1265"
    by simp
  from gen u uo 1 c cc 2 show ?thesis by blast
qed

section \<open>The columns of the generated collections\<close>

declare upt_rec_numeral [simp del]


lemma generated_ids:
  "map BaseModel.SourcedId (generated_orgs uuid now) = map uuid [0..<10]"
  "map BaseModel.SourcedId (generated_students uuid now) = map uuid [10..<1010]"
  "map BaseModel.SourcedId (generated_teachers uuid now) = map uuid [1010..<1260]"
  "map BaseModel.SourcedId (generated_terms uuid now) = map uuid [1260..<1264]"
  "map BaseModel.SourcedId (generated_courses uuid now) = map uuid [1264..<1314]"
  "map BaseModel.SourcedId (generated_classes uuid now) = map uuid [1314..<1814]"
  by (rule nth_equalityI; simp add: generated_nth)+

lemma generated_category_columns:
  "map BaseModel.SourcedId (generated_categories uuid) = [uuid 1814, uuid 1815, uuid 1816]"
  "map Status (generated_categories uuid) = [[], [], []]"
  "map DateLastModified (generated_categories uuid) = [Time_zero, Time_zero, Time_zero]"
  "map Category.Title (generated_categories uuid) = [''Homework'', ''Exams'', ''Participation'']"
  by (simp_all add: generated_categories_def)

lemma generated_times:
  "map DateLastModified (generated_orgs uuid now) = map now [0..<10]"
  "map DateLastModified (generated_students uuid now) = map now [10..<1010]"
  "map DateLastModified (generated_teachers uuid now) = map now [1010..<1260]"
  "map DateLastModified (generated_terms uuid now) = map now [1260..<1264]"
  "map DateLastModified (generated_courses uuid now) = map now [1264..<1314]"
  "map DateLastModified (generated_classes uuid now) = map now [1314..<1814]"
  by (rule nth_equalityI; simp add: generated_nth)+

lemma generated_status:
  "map Status (generated_orgs uuid now) = replicate 10 ''active''"
  "map Status (generated_students uuid now) = replicate 1000 ''active''"
  "map Status (generated_teachers uuid now) = replicate 250 ''active''"
  "map Status (generated_terms uuid now) = replicate 4 ''active''"
  "map Status (generated_courses uuid now) = replicate 50 ''active''"
  "map Status (generated_classes uuid now) = replicate 500 ''active''"
  by (rule nth_equalityI; simp add: generated_nth)+

lemma generated_types:
  "map Org.Type (generated_orgs uuid now) = replicate 10 ''school''"
  "map AcademicSession.Type (generated_terms uuid now) = replicate 4 ''term''"
  by (rule nth_equalityI; simp add: generated_nth)+


lemma distinct_map_uuid:
  assumes "inj_on uuid {..<1817}" "b \<le> 1817"
  shows "distinct (map uuid [a..<b])"
proof -
  from assms have "inj_on uuid (set [a..<b])"
    by (auto intro: inj_on_subset)
  then show ?thesis by (simp add: distinct_map)
qed

lemma user_ids: 
  "map BaseModel.SourcedId (generated_students uuid now @ generated_teachers uuid now) = map uuid [10..<1260]"
proof -
  have "[10..<1260] = [10..<1010] @ [1010..<1260]"
    using upt_add_eq_append [of 10 1010 250] by simp
  then show ?thesis by (simp add: generated_ids)
qed


lemma example_uuid_inj: "inj_on example_uuid A"
proof (rule inj_onI)
  fix m n assume "example_uuid m = example_uuid n"
  then have "length (example_uuid m) = length (example_uuid n)" by simp
  then show "m = n" by (simp add: example_uuid_def)
qed



text \<open>
  C9. The base fields of the generated records. Orgs, users, academic sessions, courses and
  classes have the status \<open>active\<close> and the clock reading of their creation as
  \<open>dateLastModified\<close>. The three categories have an identifier, but their status is the
  empty string and their \<open>dateLastModified\<close> is the zero value of the type, whatever the
  clock reads.
\<close>

theorem category_base_fields_left_zero:
  "\<exists>ds. NewDataStore uuid now = Some ds \<and>
     map BaseModel.SourcedId (Categories ds) = [uuid 1814, uuid 1815, uuid 1816] \<and>
     map Status (Categories ds) = [[], [], []] \<and>
     map DateLastModified (Categories ds) = [Time_zero, Time_zero, Time_zero] \<and>
     map Status (DataStore.Orgs ds) = replicate 10 ''active'' \<and>
     map DateLastModified (DataStore.Orgs ds) = map now [0..<10] \<and>
     map Status (Users ds) = replicate 1250 ''active'' \<and>
     map DateLastModified (Users ds) = map now [10..<1010] @ map now [1010..<1260] \<and>
     map Status (AcademicSessions ds) = replicate 4 ''active'' \<and>
     map DateLastModified (AcademicSessions ds) = map now [1260..<1264] \<and>
     map Status (Courses ds) = replicate 50 ''active'' \<and>
     map DateLastModified (Courses ds) = map now [1264..<1314] \<and>
     map Status (Classes ds) = replicate 500 ''active'' \<and>
     map DateLastModified (Classes ds) = map now [1314..<1814]"
proof -
  have "replicate 1250 ''active'' = replicate 1000 ''active'' @ replicate 250 ''active''"
    by (simp add: replicate_add [symmetric])
  then show ?thesis
    by (simp add: NewDataStore_eq generated_category_columns generated_status generated_times)
qed

section \<open>The handlers on the generated store\<close>

text \<open>
  C6. On the generated store, the categories of a class are the whole category collection
  of the store, three records, with status 200, for every request: the path parameter is
  not read, so an id that matches no class gives the same response.
\<close>

theorem categories_for_any_class:
  "\<exists>ds. NewDataStore uuid now = Some ds \<and>
     length (Categories ds) = 3 \<and>
     map Category.Title (Categories ds) = [''Homework'', ''Exams'', ''Participation''] \<and>
     (\<forall>r. getCategoriesForClass \<lparr>Store = ds\<rparr> r =
            \<lparr>StatusCode = 200, ContentType = ''application/json'',
             Body = (''categories'', CategoryList (Categories ds))\<rparr>)"
  by (simp add: NewDataStore_eq generated_category_columns getCategoriesForClass_def
        writeJSON_def StatusOK_def)

lemma generated_no_grading_period:
  "filter (\<lambda>session. AcademicSession.Type session = ''gradingPeriod'') (generated_terms uuid now) = []"
  by (simp add: generated_terms_def filter_map comp_def)

text \<open>
  C7. On the generated store the enrollment list is empty, the lookup of an enrollment
  answers 404 for every request, and the list of grading periods is the empty list with
  status 200: all four generated academic sessions have the type \<open>term\<close>.
\<close>

theorem enrollments_and_grading_periods_empty:
  "\<exists>ds. NewDataStore uuid now = Some ds \<and>
     (\<forall>r. getEnrollments \<lparr>Store = ds\<rparr> r =
            \<lparr>StatusCode = 200, ContentType = ''application/json'',
             Body = (''enrollments'', EnrollmentList [])\<rparr>) \<and>
     (\<forall>r. getEnrollment \<lparr>Store = ds\<rparr> r =
            \<lparr>StatusCode = 404, ContentType = ''application/json'',
             Body = (''error'', Message ''Enrollment not found'')\<rparr>) \<and>
     (\<forall>r. getGradingPeriods \<lparr>Store = ds\<rparr> r =
            \<lparr>StatusCode = 200, ContentType = ''application/json'',
             Body = (''academicSessions'', SessionList [])\<rparr>) \<and>
     map AcademicSession.Type (AcademicSessions ds) = replicate 4 ''term''"
  by (simp add: NewDataStore_eq getEnrollments_def getEnrollment_def getGradingPeriods_def
        writeJSON_def StatusOK_def StatusNotFound_def range_collect_filter
        generated_no_grading_period generated_types)

lemma range_first_cong:
  "(\<And>x. x \<in> set xs \<Longrightarrow> c x = d x) \<Longrightarrow> range_first c xs = range_first d xs"
  by (induction xs) simp_all

lemma generated_orgs_school: "x \<in> set (generated_orgs uuid now) \<Longrightarrow> Org.Type x = ''school''"
  by (auto simp: generated_orgs_def)

lemma generated_school_filter:
  "filter (\<lambda>org. Org.Type org = ''school'') (generated_orgs uuid now) = generated_orgs uuid now"
  by (simp add: generated_orgs_def filter_map comp_def)

lemma generated_school_first:
  "range_first (\<lambda>org. BaseModel.SourcedId org = v \<and> Org.Type org = ''school'') (generated_orgs uuid now)
     = range_first (\<lambda>org. BaseModel.SourcedId org = v) (generated_orgs uuid now)"
  by (rule range_first_cong) (simp add: generated_orgs_school)

text \<open>
  C10. Every generated org has the type \<open>school\<close>. On the generated store the list of
  schools is the list of orgs, the lookup of a school succeeds exactly when the lookup of an
  org does, and then both give the same response; otherwise both answer 404, each with its
  own message.
\<close>

theorem every_org_is_a_school:
  "\<exists>ds. NewDataStore uuid now = Some ds \<and>
     map Org.Type (DataStore.Orgs ds) = replicate 10 ''school'' \<and>
     (\<forall>r r'. getSchools \<lparr>Store = ds\<rparr> r = getOrgs \<lparr>Store = ds\<rparr> r') \<and>
     (\<forall>r. (StatusCode (getSchool \<lparr>Store = ds\<rparr> r) = 200) = (StatusCode (getOrg \<lparr>Store = ds\<rparr> r) = 200)) \<and>
     (\<forall>r. getSchool \<lparr>Store = ds\<rparr> r = getOrg \<lparr>Store = ds\<rparr> r \<or>
          (getOrg \<lparr>Store = ds\<rparr> r =
             \<lparr>StatusCode = 404, ContentType = ''application/json'',
              Body = (''error'', Message ''Org not found'')\<rparr> \<and>
           getSchool \<lparr>Store = ds\<rparr> r =
             \<lparr>StatusCode = 404, ContentType = ''application/json'',
              Body = (''error'', Message ''School not found'')\<rparr>))"
proof -
  let ?ds = "generated_store uuid now"
  have lists: "getSchools \<lparr>Store = ?ds\<rparr> r = getOrgs \<lparr>Store = ?ds\<rparr> r'" for r r'
    by (simp add: getSchools_def getOrgs_def range_collect_filter generated_school_filter)
  have one: "getSchool \<lparr>Store = ?ds\<rparr> r = getOrg \<lparr>Store = ?ds\<rparr> r \<or>
          (getOrg \<lparr>Store = ?ds\<rparr> r =
             \<lparr>StatusCode = 404, ContentType = ''application/json'',
              Body = (''error'', Message ''Org not found'')\<rparr> \<and>
           getSchool \<lparr>Store = ?ds\<rparr> r =
             \<lparr>StatusCode = 404, ContentType = ''application/json'',
              Body = (''error'', Message ''School not found'')\<rparr>)" for r
    by (simp add: getSchool_def getOrg_def generated_school_first writeJSON_def StatusNotFound_def
          split: option.split)
  have code: "(StatusCode (getSchool \<lparr>Store = ?ds\<rparr> r) = 200) = (StatusCode (getOrg \<lparr>Store = ?ds\<rparr> r) = 200)" for r
    by (simp add: getSchool_def getOrg_def generated_school_first writeJSON_def StatusNotFound_def
          StatusOK_def split: option.split)
  from lists one code show ?thesis
    by (simp add: NewDataStore_eq generated_types)
qed

end
